theory Spec2Isabelle
  imports Main "HOL-Library.Word"
begin

section \<open>Strings and numbers of the page\<close>

text \<open>
  The page is a single React component, \<open>Home\<close> in \<open>src/pages/index.tsx\<close>. Its strings
  are JavaScript strings: sequences of 16-bit code units. The regular expression of
  \<open>validateEmail\<close> has no \<open>u\<close> flag, so it reads the input one code unit at a time.
  \<open>js\<close> turns an ASCII literal of the source into such a string.
\<close>

type_synonym jsstring = "16 word list"

definition js :: "string \<Rightarrow> jsstring" where
  "js s = map of_char s"

text \<open>
  The code units matched by the escape \<open>\s\<close> of an ECMAScript regular expression:
  tab, line feed, vertical tab, form feed, carriage return, space, no-break space,
  U+1680, U+2000 to U+200A, the line and paragraph separators, U+202F, U+205F, U+3000
  and the byte order mark.
\<close>

definition is_space :: "16 word \<Rightarrow> bool" where
  "is_space c \<longleftrightarrow>
     c \<in> {0x09, 0x0A, 0x0B, 0x0C, 0x0D, 0x20, 0xA0, 0x1680,
          0x2028, 0x2029, 0x202F, 0x205F, 0x3000, 0xFEFF}
     \<or> (0x2000 \<le> c \<and> c \<le> 0x200A)"

text \<open>
  \<open>{data.length}\<close> is a number child of the header; React shows a number as its decimal
  string. An array length is a natural number, written without leading zeros.
\<close>

fun decimal :: "nat \<Rightarrow> jsstring" where
  "decimal n =
     (if n < 10 then [of_nat (48 + n)]
      else decimal (n div 10) @ [of_nat (48 + n mod 10)])"

text \<open>Reading a digit string back, most significant digit first.\<close>

definition digits_value :: "jsstring \<Rightarrow> nat" where
  "digits_value ds = foldl (\<lambda>acc d. 10 * acc + (unat d - 48)) 0 ds"


section \<open>The regular expression of \<open>validateEmail\<close>\<close>

text \<open>
  The pattern is \<^verbatim>\<open>/^[^\s@]+@[^\s@]+\.[^\s@]+$/\<close>. Its pieces are literal code units,
  negated classes whose members are a code unit or the escape \<open>\s\<close>, concatenation and
  the quantifier \<open>+\<close>. \<open>Fail\<close>, \<open>Empty\<close>, \<open>Alt\<close> and \<open>Star\<close> are the forms that the
  residuals of such a pattern take while the input is consumed.
\<close>

datatype atom = Unit "16 word" | Space

fun atom_matches :: "atom \<Rightarrow> 16 word \<Rightarrow> bool" where
  "atom_matches (Unit u) c = (c = u)"
| "atom_matches Space c = is_space c"

datatype regex =
    Fail
  | Empty
  | Lit "16 word"
  | NegClass "atom list"
  | Cat regex regex
  | Alt regex regex
  | Star regex

definition Plus :: "regex \<Rightarrow> regex" where
  "Plus r = Cat r (Star r)"

fun nullable :: "regex \<Rightarrow> bool" where
  "nullable Fail = False"
| "nullable Empty = True"
| "nullable (Lit u) = False"
| "nullable (NegClass as) = False"
| "nullable (Cat r s) = (nullable r \<and> nullable s)"
| "nullable (Alt r s) = (nullable r \<or> nullable s)"
| "nullable (Star r) = True"

fun deriv :: "16 word \<Rightarrow> regex \<Rightarrow> regex" where
  "deriv c Fail = Fail"
| "deriv c Empty = Fail"
| "deriv c (Lit u) = (if c = u then Empty else Fail)"
| "deriv c (NegClass as) = (if list_ex (\<lambda>a. atom_matches a c) as then Fail else Empty)"
| "deriv c (Cat r s) =
     (if nullable r then Alt (Cat (deriv c r) s) (deriv c s) else Cat (deriv c r) s)"
| "deriv c (Alt r s) = Alt (deriv c r) (deriv c s)"
| "deriv c (Star r) = Cat (deriv c r) (Star r)"

text \<open>
  \<open>re.test(email)\<close>. The pattern starts with \<open>^\<close>, ends with \<open>$\<close> and carries no flag,
  so a match can only start at the first code unit and must end at the last one:
  \<open>test\<close> decides whether the whole input matches the body of the pattern.
\<close>

fun test :: "regex \<Rightarrow> jsstring \<Rightarrow> bool" where
  "test r [] = nullable r"
| "test r (c # cs) = test (deriv c r) cs"

definition re :: regex where
  "re = Cat (Plus (NegClass [Space, Unit 0x40]))
         (Cat (Lit 0x40)
           (Cat (Plus (NegClass [Space, Unit 0x40]))
             (Cat (Lit 0x2E) (Plus (NegClass [Space, Unit 0x40])))))"

definition validateEmail :: "jsstring \<Rightarrow> bool" where
  "validateEmail email = test re email"

subsection \<open>What a pattern denotes\<close>

definition conc :: "jsstring set \<Rightarrow> jsstring set \<Rightarrow> jsstring set" where
  "conc A B = {u @ v | u v. u \<in> A \<and> v \<in> B}"

inductive_set star :: "jsstring set \<Rightarrow> jsstring set" for A :: "jsstring set" where
  star_nil: "[] \<in> star A"
| star_app: "u \<in> A \<Longrightarrow> v \<in> star A \<Longrightarrow> u @ v \<in> star A"

fun lang :: "regex \<Rightarrow> jsstring set" where
  "lang Fail = {}"
| "lang Empty = {[]}"
| "lang (Lit u) = {[u]}"
| "lang (NegClass as) = {[c] | c. \<not> list_ex (\<lambda>a. atom_matches a c) as}"
| "lang (Cat r s) = conc (lang r) (lang s)"
| "lang (Alt r s) = lang r \<union> lang s"
| "lang (Star r) = star (lang r)"

subsection \<open>The shape \<open>local@domain.tld\<close>\<close>

text \<open>
  A code unit that may stand in one of the three parts: no whitespace and no \<open>@\<close>.
  The shape: three non-empty parts of such code units, the first two separated by one
  \<open>@\<close> (U+0040), the last two by one \<open>.\<close> (U+002E).
\<close>

definition part_unit :: "16 word \<Rightarrow> bool" where
  "part_unit c \<longleftrightarrow> \<not> is_space c \<and> c \<noteq> 0x40"

definition email_shape :: "jsstring \<Rightarrow> bool" where
  "email_shape s \<longleftrightarrow>
     (\<exists>local domain tld.
        s = local @ [0x40] @ domain @ [0x2E] @ tld
        \<and> local \<noteq> [] \<and> domain \<noteq> [] \<and> tld \<noteq> []
        \<and> list_all part_unit local \<and> list_all part_unit domain \<and> list_all part_unit tld)"

text \<open>
  The shape as the description of \<open>validateEmail\<close> words it: a non-empty run without
  whitespace and \<open>@\<close>, one \<open>@\<close>, then a non-empty run without whitespace and \<open>@\<close> that
  contains a \<open>.\<close> with non-empty text after it. Nothing is asked of the text between the
  \<open>@\<close> and that \<open>.\<close>.
\<close>

definition claimed_shape :: "jsstring \<Rightarrow> bool" where
  "claimed_shape s \<longleftrightarrow>
     (\<exists>local rest.
        s = local @ [0x40] @ rest
        \<and> local \<noteq> [] \<and> list_all part_unit local
        \<and> rest \<noteq> [] \<and> list_all part_unit rest
        \<and> (\<exists>before after. rest = before @ [0x2E] @ after \<and> after \<noteq> []))"


section \<open>Data model\<close>

text \<open>
  \<open>Customer\<close> has an optional \<open>businessName\<close>: \<open>None\<close> is the property left out.
  The form keeps \<open>Omit<Customer, "email">\<close> in \<open>newCustomer\<close>, so a \<open>Customer\<close> is such a
  draft extended by \<open>email\<close>.
\<close>

record draft =
  firstName :: jsstring
  lastName :: jsstring
  businessName :: "jsstring option"

record Customer = draft +
  email :: jsstring

type_synonym Customers = "Customer list"

record ApiError =
  code :: jsstring
  message :: jsstring

text \<open>
  The JSON bodies of \<open>/api/customers\<close>: an array of customers or an \<open>ApiError\<close> object.
  A value that reaches a \<open>catch\<close> or SWR's \<open>error\<close> is either such a body, thrown by the
  page's own \<open>throw\<close>, or the \<open>Error\<close> object of a rejected promise, kept by its message:
  the \<open>TypeError\<close> of a \<open>fetch\<close> that found no server, the \<open>SyntaxError\<close> of a
  \<open>response.json()\<close> whose text is not JSON.
\<close>

datatype body = CustomersBody Customers | ApiErrorBody ApiError

datatype thrown = Body body | Failure jsstring

text \<open>
  A response as the page reads it: \<open>ok\<close> is true for a 2xx status, \<open>json\<close> is how the
  promise of \<open>response.json()\<close> settles (\<open>Inl\<close> the message of the rejection). A
  \<open>fetch_result\<close> is how the promise of \<open>fetch\<close> settles.
\<close>

record response =
  ok :: bool
  json :: "jsstring + body"

type_synonym fetch_result = "jsstring + response"

text \<open>The four \<open>useState\<close> cells of \<open>Home\<close>.\<close>

record home_state =
  "open" :: bool
  newCustomer :: draft
  email :: jsstring
  emailError :: jsstring

definition initial_state :: home_state where
  "initial_state =
     \<lparr>open = False,
      newCustomer = \<lparr>firstName = [], lastName = [], businessName = Some []\<rparr>,
      email = [], emailError = []\<rparr>"

text \<open>What \<open>useSWR<Customers, ApiError>\<close> hands to the component.\<close>

record swr_state =
  data :: "body option"
  error :: "thrown option"
  isLoading :: bool

text \<open>What a handler does to the outside: the POST, \<open>mutate()\<close> and \<open>console.error\<close>.\<close>

datatype effect = POST Customer | Mutate | ConsoleError thrown


section \<open>Fetching the list\<close>

text \<open>
  \<open>fetcher\<close>, given how \<open>await fetch(url)\<close> settles. A rejected \<open>fetch\<close> and a rejected
  \<open>response.json()\<close> leave the function as they are; \<open>response.ok\<close> is read only after
  the body has been parsed.
\<close>

definition fetcher :: "fetch_result \<Rightarrow> thrown + body" where
  "fetcher settled =
     (case settled of
        Inl reason \<Rightarrow> Inl (Failure reason)
      | Inr response \<Rightarrow>
          (case json response of
             Inl reason \<Rightarrow> Inl (Failure reason)
           | Inr body \<Rightarrow> if \<not> ok response then Inl (Body body) else Inr body))"

definition swr_initial :: swr_state where
  "swr_initial = \<lparr>data = None, error = None, isLoading = True\<rparr>"

text \<open>
  Modelled from the spec: the SWR library is not part of the sources. Section 4.1:
  a fetch that succeeds becomes the data; a fetch that fails surfaces the error and
  leaves prior data, if any, untouched; loading is the state of a request in flight.
\<close>

definition swr_settle :: "thrown + body \<Rightarrow> swr_state \<Rightarrow> swr_state" where
  "swr_settle result s =
     (case result of
        Inr b \<Rightarrow> \<lparr>data = Some b, error = None, isLoading = False\<rparr>
      | Inl e \<Rightarrow> s\<lparr>error := Some e, isLoading := False\<rparr>)"


section \<open>The form handlers\<close>

definition handleClickOpen :: "home_state \<Rightarrow> home_state" where
  "handleClickOpen st = st\<lparr>open := True\<rparr>"

definition handleClose :: "home_state \<Rightarrow> home_state" where
  "handleClose st =
     st\<lparr>open := False,
        newCustomer := \<lparr>firstName = [], lastName = [], businessName = Some []\<rparr>,
        email := [],
        emailError := []\<rparr>"

text \<open>
  \<open>handleInputChange\<close> writes the property named by the input's \<open>name\<close>. The three
  named inputs of the dialog are \<open>firstName\<close>, \<open>lastName\<close> and \<open>businessName\<close>; any other
  name would add a property that nothing reads.
\<close>

definition handleInputChange :: "jsstring \<Rightarrow> jsstring \<Rightarrow> home_state \<Rightarrow> home_state" where
  "handleInputChange name val st =
     (let prev = newCustomer st in
      st\<lparr>newCustomer :=
           (if name = js ''firstName'' then prev\<lparr>firstName := val\<rparr>
            else if name = js ''lastName'' then prev\<lparr>lastName := val\<rparr>
            else if name = js ''businessName'' then prev\<lparr>businessName := Some val\<rparr>
            else prev)\<rparr>)"

text \<open>The \<open>onChange\<close> of the email field.\<close>

definition emailChange :: "jsstring \<Rightarrow> home_state \<Rightarrow> home_state" where
  "emailChange val st =
     (let st' = st\<lparr>email := val\<rparr> in
      if emailError st \<noteq> [] then st'\<lparr>emailError := []\<rparr> else st')"

text \<open>
  \<open>handleAddCustomer\<close> is asynchronous. \<open>handleAddCustomer_start\<close> is the part that
  runs at the click, up to the \<open>await\<close> of the POST: it returns the new state and, when
  the email passed, the request it sent. \<open>handleAddCustomer_settled\<close> is the rest, run
  when the POST has settled, on the state of that moment.
\<close>

definition payload :: "home_state \<Rightarrow> Customer" where
  "payload st =
     \<lparr>firstName = firstName (newCustomer st),
      lastName = lastName (newCustomer st),
      businessName = businessName (newCustomer st),
      Customer.email = email st\<rparr>"

definition handleAddCustomer_start :: "home_state \<Rightarrow> home_state \<times> effect list" where
  "handleAddCustomer_start st =
     (if \<not> validateEmail (email st)
      then (st\<lparr>emailError := js ''Please enter a valid email address''\<rparr>, [])
      else (st, [POST (payload st)]))"

definition handleAddCustomer_settled :: "fetch_result \<Rightarrow> home_state \<Rightarrow> home_state \<times> effect list" where
  "handleAddCustomer_settled settled st =
     (case settled of
        Inl reason \<Rightarrow> (st, [ConsoleError (Failure reason)])
      | Inr response \<Rightarrow>
          if \<not> ok response
          then (case json response of
                  Inl reason \<Rightarrow> (st, [ConsoleError (Failure reason)])
                | Inr b \<Rightarrow> (st, [ConsoleError (Body b)]))
          else (handleClose st, [Mutate]))"

text \<open>
  The whole handler when nothing else happens in between; \<open>post\<close> is how the server
  answers the request.
\<close>

definition handleAddCustomer :: "(Customer \<Rightarrow> fetch_result) \<Rightarrow> home_state \<Rightarrow> home_state \<times> effect list" where
  "handleAddCustomer post st =
     (if \<not> validateEmail (email st)
      then handleAddCustomer_start st
      else (let (st1, sent) = handleAddCustomer_start st;
                (st2, after) = handleAddCustomer_settled (post (payload st)) st1
            in (st2, sent @ after)))"


section \<open>What \<open>Home\<close> renders\<close>

text \<open>
  \<open>a || b\<close> where \<open>a\<close> is a string or \<open>undefined\<close>: the empty string and \<open>undefined\<close>
  are falsy. \<open>!s\<close> on a string is true for the empty string only.
\<close>

fun or_else :: "jsstring option \<Rightarrow> jsstring \<Rightarrow> jsstring" where
  "or_else None b = b"
| "or_else (Some a) b = (if a = [] then b else a)"

definition falsy :: "jsstring \<Rightarrow> bool" where
  "falsy s \<longleftrightarrow> s = []"

text \<open>The name cell of a row and the count in the header of the table.\<close>

definition nameCell :: "Customer \<Rightarrow> jsstring" where
  "nameCell customer =
     or_else (businessName customer) (firstName customer @ js '' '' @ lastName customer)"

definition countLabel :: "Customers \<Rightarrow> jsstring" where
  "countLabel customers =
     decimal (length customers) @ js '' ''
       @ (if length customers = 1 then js ''Customer'' else js ''Customers'')"

record table_view =
  tv_count :: jsstring
  tv_rows :: "(jsstring \<times> jsstring) list"

text \<open>
  The table is written for an array. Were \<open>data\<close> the other body, an object,
  \<open>data.map\<close> would not be a function and rendering would throw.
\<close>

datatype render_error = NotAFunction

definition renderTable :: "body \<Rightarrow> render_error + table_view" where
  "renderTable b =
     (case b of
        CustomersBody customers \<Rightarrow>
          Inr \<lparr>tv_count = countLabel customers,
               tv_rows = map (\<lambda>customer. (nameCell customer, Customer.email customer)) customers\<rparr>
      | ApiErrorBody e \<Rightarrow> Inl NotAFunction)"

text \<open>
  \<open>error.message\<close>: the field of an \<open>ApiError\<close>, the message of an \<open>Error\<close> object,
  \<open>undefined\<close> on an array. React shows \<open>undefined\<close> as nothing.
\<close>

fun message_of :: "thrown \<Rightarrow> jsstring option" where
  "message_of (Body (ApiErrorBody e)) = Some (message e)"
| "message_of (Body (CustomersBody customers)) = None"
| "message_of (Failure reason) = Some reason"

definition errorText :: "thrown \<Rightarrow> jsstring" where
  "errorText e = js ''Error: '' @ (case message_of e of None \<Rightarrow> [] | Some m \<Rightarrow> m)"

record text_field =
  tf_value :: jsstring
  tf_error :: bool
  tf_helperText :: jsstring

text \<open>The \<open>disabled\<close> property of the Create button.\<close>

definition createDisabled :: "home_state \<Rightarrow> bool" where
  "createDisabled st \<longleftrightarrow>
     falsy (firstName (newCustomer st))
     \<or> falsy (lastName (newCustomer st))
     \<or> falsy (email st)
     \<or> \<not> validateEmail (email st)"

record dialog_view =
  dlg_open :: bool
  dlg_firstName :: text_field
  dlg_lastName :: text_field
  dlg_businessName :: text_field
  dlg_email :: text_field
  dlg_createDisabled :: bool

definition renderDialog :: "home_state \<Rightarrow> dialog_view" where
  "renderDialog st =
     \<lparr>dlg_open = open st,
      dlg_firstName =
        \<lparr>tf_value = firstName (newCustomer st),
         tf_error = falsy (firstName (newCustomer st)),
         tf_helperText = (if falsy (firstName (newCustomer st)) then js ''Required'' else [])\<rparr>,
      dlg_lastName =
        \<lparr>tf_value = lastName (newCustomer st),
         tf_error = falsy (lastName (newCustomer st)),
         tf_helperText = (if falsy (lastName (newCustomer st)) then js ''Required'' else [])\<rparr>,
      dlg_businessName =
        \<lparr>tf_value = or_else (businessName (newCustomer st)) [],
         tf_error = False,
         tf_helperText = []\<rparr>,
      dlg_email =
        \<lparr>tf_value = email st,
         tf_error = (\<not> falsy (emailError st) \<or> falsy (email st)),
         tf_helperText =
           (if \<not> falsy (emailError st) then emailError st
            else if falsy (email st) then js ''Required'' else [])\<rparr>,
      dlg_createDisabled = createDisabled st\<rparr>"

record page =
  pg_loading :: "jsstring option"
  pg_error :: "jsstring option"
  pg_table :: "table_view option"
  pg_dialog :: dialog_view

text \<open>
  The three conditional blocks of the page and the dialog. \<open>error\<close> and \<open>data\<close>, when
  defined, are objects and so truthy.
\<close>

definition render :: "swr_state \<Rightarrow> home_state \<Rightarrow> render_error + page" where
  "render sw st =
     (let loading = (if isLoading sw then Some (js ''Loading...'') else None);
          err = (case error sw of None \<Rightarrow> None | Some e \<Rightarrow> Some (errorText e))
      in case data sw of
           None \<Rightarrow>
             Inr \<lparr>pg_loading = loading, pg_error = err, pg_table = None,
                  pg_dialog = renderDialog st\<rparr>
         | Some b \<Rightarrow>
             (case renderTable b of
                Inl bad \<Rightarrow> Inl bad
              | Inr t \<Rightarrow>
                  Inr \<lparr>pg_loading = loading, pg_error = err, pg_table = Some t,
                       pg_dialog = renderDialog st\<rparr>))"


section \<open>The page as a machine\<close>

text \<open>
  What can happen to the page: the user's actions on the controls that are on screen,
  and the two kinds of request settling. The Add Customer button is in the header of
  the table; the controls of the dialog exist while it is open; a disabled button takes
  no click.
\<close>

datatype event =
    AddCustomerClicked
  | CancelClicked
  | DialogClosed
  | InputChanged jsstring jsstring
  | EmailChanged jsstring
  | CreateClicked
  | PostSettled fetch_result
  | GetSettled fetch_result

definition table_shown :: "swr_state \<Rightarrow> bool" where
  "table_shown sw \<longleftrightarrow> (case data sw of Some (CustomersBody customers) \<Rightarrow> True | _ \<Rightarrow> False)"

fun step :: "event \<Rightarrow> swr_state \<times> home_state \<Rightarrow> (swr_state \<times> home_state) \<times> effect list" where
  "step AddCustomerClicked (sw, st) =
     (if table_shown sw then ((sw, handleClickOpen st), []) else ((sw, st), []))"
| "step CancelClicked (sw, st) =
     (if open st then ((sw, handleClose st), []) else ((sw, st), []))"
| "step DialogClosed (sw, st) =
     (if open st then ((sw, handleClose st), []) else ((sw, st), []))"
| "step (InputChanged name val) (sw, st) =
     (if open st then ((sw, handleInputChange name val st), []) else ((sw, st), []))"
| "step (EmailChanged val) (sw, st) =
     (if open st then ((sw, emailChange val st), []) else ((sw, st), []))"
| "step CreateClicked (sw, st) =
     (if open st \<and> \<not> createDisabled st
      then (let (st', out) = handleAddCustomer_start st in ((sw, st'), out))
      else ((sw, st), []))"
| "step (PostSettled settled) (sw, st) =
     (let (st', out) = handleAddCustomer_settled settled st in ((sw, st'), out))"
| "step (GetSettled settled) (sw, st) =
     ((swr_settle (fetcher settled) sw, st), [])"


section \<open>Sample inputs\<close>

definition jane :: home_state where
  "jane =
     \<lparr>open = True,
      newCustomer = \<lparr>firstName = js ''Jane'', lastName = js ''Doe'', businessName = Some []\<rparr>,
      email = js ''jane@doe.com'', emailError = []\<rparr>"

definition bob :: home_state where
  "bob =
     \<lparr>open = True,
      newCustomer = \<lparr>firstName = js ''Bob'', lastName = js ''Ray'', businessName = Some []\<rparr>,
      email = js ''bob@example'', emailError = []\<rparr>"

definition server_error :: ApiError where
  "server_error = \<lparr>code = js ''500'', message = js ''Server error''\<rparr>"

definition error_response :: response where
  "error_response = \<lparr>ok = False, json = Inr (ApiErrorBody server_error)\<rparr>"

definition garbled_response :: response where
  "garbled_response = \<lparr>ok = False, json = Inl (js ''Unexpected token'')\<rparr>"

definition created_response :: response where
  "created_response = \<lparr>ok = True, json = Inr (CustomersBody [])\<rparr>"

definition acme :: Customer where
  "acme =
     \<lparr>firstName = js ''Wile'', lastName = js ''Coyote'', businessName = Some (js ''Acme''),
      Customer.email = js ''wile@acme.com''\<rparr>"

definition jane_doe :: Customer where
  "jane_doe =
     \<lparr>firstName = js ''Jane'', lastName = js ''Doe'', businessName = None,
      Customer.email = js ''jane@doe.com''\<rparr>"

definition blank_business :: Customer where
  "blank_business =
     \<lparr>firstName = js ''Jane'', lastName = js ''Doe'', businessName = Some [],
      Customer.email = js ''jane@doe.com''\<rparr>"


section \<open>The pattern matcher is exact\<close>

lemmas evaluate = validateEmail_def re_def Plus_def js_def is_space_def

lemma in_conc: "w \<in> conc A B \<longleftrightarrow> (\<exists>u v. w = u @ v \<and> u \<in> A \<and> v \<in> B)"
  by (auto simp: conc_def)

lemma nil_in_conc: "[] \<in> conc A B \<longleftrightarrow> [] \<in> A \<and> [] \<in> B"
  by (auto simp: conc_def)

lemma cons_in_conc:
  "c # w \<in> conc A B \<longleftrightarrow>
     (\<exists>u v. w = u @ v \<and> c # u \<in> A \<and> v \<in> B) \<or> ([] \<in> A \<and> c # w \<in> B)"
proof
  assume "c # w \<in> conc A B"
  then obtain x y where xy: "c # w = x @ y" "x \<in> A" "y \<in> B"
    by (auto simp: conc_def)
  show "(\<exists>u v. w = u @ v \<and> c # u \<in> A \<and> v \<in> B) \<or> ([] \<in> A \<and> c # w \<in> B)"
  proof (cases x)
    case Nil
    with xy show ?thesis by simp
  next
    case (Cons a u)
    with xy have "w = u @ y" "c # u \<in> A" by simp_all
    with xy show ?thesis by blast
  qed
next
  assume r: "(\<exists>u v. w = u @ v \<and> c # u \<in> A \<and> v \<in> B) \<or> ([] \<in> A \<and> c # w \<in> B)"
  then show "c # w \<in> conc A B"
  proof
    assume "\<exists>u v. w = u @ v \<and> c # u \<in> A \<and> v \<in> B"
    then obtain u v where "w = u @ v" "c # u \<in> A" "v \<in> B" by blast
    then have "c # w = (c # u) @ v" by simp
    then show ?thesis using \<open>c # u \<in> A\<close> \<open>v \<in> B\<close> unfolding conc_def by blast
  next
    assume "[] \<in> A \<and> c # w \<in> B"
    then have "c # w = [] @ (c # w)" "[] \<in> A" "c # w \<in> B" by simp_all
    then show ?thesis unfolding conc_def by blast
  qed
qed

lemma star_cons_split:
  assumes "x \<in> star A" "x = c # w"
  shows "\<exists>u v. w = u @ v \<and> c # u \<in> A \<and> v \<in> star A"
  using assms
proof (induction arbitrary: w rule: star.induct)
  case star_nil
  then show ?case by simp
next
  case (star_app u v)
  show ?case
  proof (cases u)
    case Nil
    with star_app show ?thesis by simp
  next
    case (Cons a u')
    with star_app.prems have "w = u' @ v" "a = c" by simp_all
    with Cons star_app.hyps show ?thesis by blast
  qed
qed

lemma cons_in_star:
  "c # w \<in> star A \<longleftrightarrow> (\<exists>u v. w = u @ v \<and> c # u \<in> A \<and> v \<in> star A)"
proof
  assume "c # w \<in> star A"
  then show "\<exists>u v. w = u @ v \<and> c # u \<in> A \<and> v \<in> star A"
    by (rule star_cons_split) simp
next
  assume "\<exists>u v. w = u @ v \<and> c # u \<in> A \<and> v \<in> star A"
  then obtain u v where "w = u @ v" "c # u \<in> A" "v \<in> star A" by blast
  then have "(c # u) @ v \<in> star A" by (intro star.star_app)
  with \<open>w = u @ v\<close> show "c # w \<in> star A" by simp
qed

lemma nullable_lang: "nullable r \<longleftrightarrow> [] \<in> lang r"
  by (induction r) (auto simp: nil_in_conc intro: star.star_nil)

lemma deriv_lang: "w \<in> lang (deriv c r) \<longleftrightarrow> c # w \<in> lang r"
proof (induction r arbitrary: w)
  case (Cat r s)
  have "w \<in> lang (deriv c (Cat r s)) \<longleftrightarrow>
          (\<exists>u v. w = u @ v \<and> u \<in> lang (deriv c r) \<and> v \<in> lang s)
          \<or> (nullable r \<and> w \<in> lang (deriv c s))"
    by (auto simp: in_conc)
  then show ?case
    by (simp add: Cat cons_in_conc nullable_lang)
next
  case (Star r)
  have "w \<in> lang (deriv c (Star r)) \<longleftrightarrow>
          (\<exists>u v. w = u @ v \<and> u \<in> lang (deriv c r) \<and> v \<in> star (lang r))"
    by (simp add: in_conc)
  then show ?case
    by (simp add: Star cons_in_star)
qed auto

lemma test_lang: "test r w \<longleftrightarrow> w \<in> lang r"
  by (induction w arbitrary: r) (simp_all add: nullable_lang deriv_lang)

lemma star_units: "w \<in> star {[c] | c. P c} \<longleftrightarrow> list_all P w"
proof (induction w)
  case Nil
  show ?case by (simp add: star.star_nil)
next
  case (Cons a w)
  show ?case by (auto simp: cons_in_star Cons)
qed

lemma lang_part:
  "w \<in> lang (Plus (NegClass [Space, Unit 0x40])) \<longleftrightarrow> w \<noteq> [] \<and> list_all part_unit w"
proof (cases w)
  case Nil
  then show ?thesis by (simp add: Plus_def nil_in_conc)
next
  case (Cons a u)
  have eq: "{[c] |c. \<not> is_space c \<and> c \<noteq> 0x40} = {[c] | c. part_unit c}"
    by (simp add: part_unit_def)
  show ?thesis
    by (simp add: Cons Plus_def cons_in_conc eq star_units)
qed

lemma validateEmail_shape: "validateEmail s \<longleftrightarrow> email_shape s"
proof -
  let ?P = "lang (Plus (NegClass [Space, Unit 0x40]))"
  have "validateEmail s \<longleftrightarrow> s \<in> conc ?P (conc {[0x40]} (conc ?P (conc {[0x2E]} ?P)))"
    by (simp add: validateEmail_def test_lang re_def)
  also have "\<dots> \<longleftrightarrow> (\<exists>l d t. s = l @ [0x40] @ d @ [0x2E] @ t \<and> l \<in> ?P \<and> d \<in> ?P \<and> t \<in> ?P)"
    unfolding conc_def by blast
  also have "\<dots> \<longleftrightarrow> email_shape s"
    unfolding email_shape_def lang_part by blast
  finally show ?thesis .
qed

lemma count_clean: "list_all part_unit w \<Longrightarrow> count_list w 0x40 = 0"
  by (induction w) (auto simp: part_unit_def)

lemma shape_single_at:
  assumes "email_shape s"
  shows "count_list s 0x40 = 1 \<and> \<not> list_ex is_space s"
proof -
  from assms obtain l d t where s: "s = l @ [0x40] @ d @ [0x2E] @ t"
    and clean: "list_all part_unit l" "list_all part_unit d" "list_all part_unit t"
    unfolding email_shape_def by blast
  have seps: "\<not> is_space 0x2E" "\<not> is_space 0x40"
    by (simp_all add: is_space_def)
  have "count_list s 0x40 = 1"
    by (simp add: s count_clean clean)
  moreover have "\<not> list_ex is_space w" if "list_all part_unit w" for w
    using that by (induction w) (simp_all add: part_unit_def)
  then have "\<not> list_ex is_space s"
    using clean seps by (simp add: s list_ex_append)
  ultimately show ?thesis by simp
qed


section \<open>Decimal numbers\<close>

declare decimal.simps [simp del]

lemma digits_value_snoc: "digits_value (ds @ [d]) = 10 * digits_value ds + (unat d - 48)"
  by (simp add: digits_value_def)

lemma unat_digit:
  assumes "k < 10"
  shows "unat (of_nat (48 + k) :: 16 word) = 48 + k"
proof -
  from assms have "48 + k < 2 ^ 16" by simp
  then have "(48 + k) mod 2 ^ LENGTH(16) = 48 + k" by simp
  then show ?thesis by (simp only: unat_of_nat)
qed

lemma digits_value_decimal: "digits_value (decimal n) = n"
proof (induction n rule: decimal.induct)
  case (1 n)
  show ?case
  proof (cases "n < 10")
    case True
    then show ?thesis
      by (subst decimal.simps) (simp add: digits_value_def unat_digit del: of_nat_add)
  next
    case False
    then have "digits_value (decimal n) = 10 * digits_value (decimal (n div 10)) + n mod 10"
      by (subst decimal.simps) (simp add: digits_value_snoc unat_digit del: of_nat_add)
    with False "1.IH" show ?thesis by simp
  qed
qed

lemma decimal_digits: "list_all (\<lambda>d. 48 \<le> unat d \<and> unat d \<le> 57) (decimal n)"
proof (induction n rule: decimal.induct)
  case (1 n)
  show ?case
  proof (cases "n < 10")
    case True
    then show ?thesis
      by (subst decimal.simps) (simp add: unat_digit del: of_nat_add)
  next
    case False
    then have "n mod 10 < 10" by simp
    with False "1.IH" show ?thesis
      by (subst decimal.simps) (simp add: unat_digit del: of_nat_add)
  qed
qed

lemma decimal_1: "decimal (Suc 0) = js ''1''"
  by (simp add: decimal.simps js_def)

lemma decimal_3: "decimal 3 = js ''3''"
  by (simp add: decimal.simps js_def)


section \<open>The claims\<close>

text \<open>
  C1. For every state of the form, the Create button is enabled exactly when
  \<open>firstName\<close>, \<open>lastName\<close> and \<open>email\<close> are non-empty and \<open>email\<close> passes
  \<open>validateEmail\<close>; whatever \<open>businessName\<close> holds makes no difference.
\<close>

theorem create_button_enabled_iff:
  "(\<not> dlg_createDisabled (renderDialog st)) =
     (firstName (newCustomer st) \<noteq> [] \<and> lastName (newCustomer st) \<noteq> []
      \<and> email st \<noteq> [] \<and> validateEmail (email st))
   \<and> dlg_createDisabled (renderDialog (st\<lparr>newCustomer := (newCustomer st)\<lparr>businessName := b\<rparr>\<rparr>))
       = dlg_createDisabled (renderDialog st)"
  by (simp add: renderDialog_def createDisabled_def falsy_def)

theorem create_button_enabled_iff_witness:
  "\<not> dlg_createDisabled (renderDialog jane)
   \<and> dlg_createDisabled (renderDialog bob)
   \<and> dlg_createDisabled (renderDialog (jane\<lparr>newCustomer := (newCustomer jane)\<lparr>firstName := []\<rparr>\<rparr>))
   \<and> \<not> dlg_createDisabled (renderDialog (jane\<lparr>newCustomer := (newCustomer jane)\<lparr>businessName := None\<rparr>\<rparr>))"
  using create_button_enabled_iff [of jane None]
    create_button_enabled_iff [of bob None]
    create_button_enabled_iff [of "jane\<lparr>newCustomer := (newCustomer jane)\<lparr>firstName := []\<rparr>\<rparr>" None]
  by (simp add: jane_def bob_def evaluate)

text \<open>
  The wording of C2 asks nothing of the text between the \<open>@\<close> and the \<open>.\<close>. The string
  \<open>a@.com\<close> fits that wording, and the pattern rejects it: the second class needs at
  least one code unit before the \<open>.\<close>.
\<close>

theorem validateEmail_claimed_shape_counterexample:
  "claimed_shape (js ''a@.com'') \<and> \<not> validateEmail (js ''a@.com'')"
proof
  have "js ''a@.com'' = [0x61] @ [0x40] @ [0x2E, 0x63, 0x6F, 0x6D]"
    by (simp add: js_def)
  moreover have "[0x2E, 0x63, 0x6F, 0x6D] = [] @ [0x2E] @ [0x63, 0x6F, 0x6D :: 16 word]"
    by simp
  moreover have "list_all part_unit [0x61]" "list_all part_unit [0x2E, 0x63, 0x6F, 0x6D]"
    by (simp_all add: part_unit_def is_space_def)
  ultimately show "claimed_shape (js ''a@.com'')"
    unfolding claimed_shape_def by blast
next
  show "\<not> validateEmail (js ''a@.com'')"
    by (simp add: evaluate)
qed

text \<open>
  C2, as amended. \<open>validateEmail\<close> accepts exactly the strings of three non-empty parts
  without whitespace and without \<open>@\<close>, the first two separated by \<open>@\<close> and the last two
  by \<open>.\<close>; an accepted string has one \<open>@\<close> and no whitespace. When \<open>handleAddCustomer\<close>
  runs on an email that fails the check, \<open>emailError\<close> becomes
  \<open>Please enter a valid email address\<close>, nothing else changes and no request is sent.
  \<open>bob@example\<close> fails the check.
\<close>

theorem validateEmail_exact_shape:
  "(validateEmail s \<longleftrightarrow> email_shape s)
   \<and> (validateEmail s \<longrightarrow> count_list s 0x40 = 1 \<and> \<not> list_ex is_space s)
   \<and> (\<not> validateEmail (email st) \<longrightarrow>
        handleAddCustomer_start st
          = (st\<lparr>emailError := js ''Please enter a valid email address''\<rparr>, [])
        \<and> handleAddCustomer post st
          = (st\<lparr>emailError := js ''Please enter a valid email address''\<rparr>, []))
   \<and> \<not> validateEmail (js ''bob@example'')"
proof -
  have "\<not> validateEmail (js ''bob@example'')"
    by (simp add: evaluate)
  then show ?thesis
    by (simp add: validateEmail_shape shape_single_at handleAddCustomer_def
        handleAddCustomer_start_def)
qed

theorem validateEmail_exact_shape_witness:
  "validateEmail (js ''jane@doe.com'') \<and> email_shape (js ''jane@doe.com'')
   \<and> count_list (js ''jane@doe.com'') 0x40 = 1
   \<and> \<not> email_shape (js ''bob@example'')
   \<and> handleAddCustomer (\<lambda>c. Inr created_response) bob
       = (bob\<lparr>emailError := js ''Please enter a valid email address''\<rparr>, [])"
  using validateEmail_exact_shape [of "js ''jane@doe.com''" bob "\<lambda>c. Inr created_response"]
    validateEmail_exact_shape [of "js ''bob@example''" bob "\<lambda>c. Inr created_response"]
  by (simp add: bob_def evaluate)

text \<open>
  C3. When the POST fails (the \<open>fetch\<close> is rejected, or the response is not 2xx), the
  failure is caught and the only effect is one \<open>console.error\<close>: the state of the form
  at that moment is kept as it is (dialog, draft fields and \<open>emailError\<close>), the page
  renders as before, and \<open>mutate\<close> is not called.
\<close>

theorem post_failure_only_logged:
  assumes "\<forall>r. settled = Inr r \<longrightarrow> \<not> ok r"
  shows "\<exists>e. handleAddCustomer_settled settled st = (st, [ConsoleError e])
           \<and> step (PostSettled settled) (sw, st) = ((sw, st), [ConsoleError e])
           \<and> render sw (fst (handleAddCustomer_settled settled st)) = render sw st
           \<and> (validateEmail (email st) \<and> post (payload st) = settled \<longrightarrow>
                handleAddCustomer post st = (st, [POST (payload st), ConsoleError e]))"
  using assms
  by (auto simp: handleAddCustomer_def handleAddCustomer_start_def
      handleAddCustomer_settled_def split: sum.splits)

theorem post_failure_only_logged_witness:
  "handleAddCustomer (\<lambda>c. Inr error_response) jane
     = (jane, [POST (payload jane), ConsoleError (Body (ApiErrorBody server_error))])
   \<and> handleAddCustomer (\<lambda>c. Inl (js ''Failed to fetch'')) jane
     = (jane, [POST (payload jane), ConsoleError (Failure (js ''Failed to fetch''))])
   \<and> handleAddCustomer (\<lambda>c. Inr garbled_response) jane
     = (jane, [POST (payload jane), ConsoleError (Failure (js ''Unexpected token''))])"
  using post_failure_only_logged [of "Inr error_response" jane swr_initial "\<lambda>c. Inr error_response"]
    post_failure_only_logged [of "Inl (js ''Failed to fetch'')" jane swr_initial "\<lambda>c. Inl (js ''Failed to fetch'')"]
    post_failure_only_logged [of "Inr garbled_response" jane swr_initial "\<lambda>c. Inr garbled_response"]
  by (simp add: error_response_def garbled_response_def handleAddCustomer_settled_def)
     (simp add: jane_def evaluate)

text \<open>
  C4. When the POST is answered by a 2xx response, \<open>mutate()\<close> is called and the form is
  closed and cleared. \<open>mutate\<close> is never called before the POST has settled, and only
  for a 2xx answer. No event other than a GET that succeeds changes \<open>data\<close>, the source
  of the displayed list: the handler inserts nothing.
\<close>

theorem post_success_revalidates_then_closes:
  "(ok r \<longrightarrow> handleAddCustomer_settled (Inr r) st = (initial_state, [Mutate]))
   \<and> (validateEmail (email st) \<and> post (payload st) = Inr r \<and> ok r \<longrightarrow>
        handleAddCustomer post st = (initial_state, [POST (payload st), Mutate]))
   \<and> Mutate \<notin> set (snd (handleAddCustomer_start st))
   \<and> (Mutate \<in> set (snd (handleAddCustomer_settled settled st))
        \<longleftrightarrow> (\<exists>r'. settled = Inr r' \<and> ok r'))
   \<and> (step ev (sw, st) = ((sw', st'), out) \<and> data sw' \<noteq> data sw \<longrightarrow>
        (\<exists>got b. ev = GetSettled got \<and> fetcher got = Inr b \<and> data sw' = Some b))"
proof -
  have settled: "ok r \<longrightarrow> handleAddCustomer_settled (Inr r) st = (initial_state, [Mutate])"
    by (simp add: handleAddCustomer_settled_def handleClose_def initial_state_def)
  have whole: "validateEmail (email st) \<and> post (payload st) = Inr r \<and> ok r \<longrightarrow>
      handleAddCustomer post st = (initial_state, [POST (payload st), Mutate])"
    using settled by (simp add: handleAddCustomer_def handleAddCustomer_start_def)
  have start: "Mutate \<notin> set (snd (handleAddCustomer_start st))"
    by (simp add: handleAddCustomer_start_def)
  have only: "Mutate \<in> set (snd (handleAddCustomer_settled settled st))
      \<longleftrightarrow> (\<exists>r'. settled = Inr r' \<and> ok r')"
    by (auto simp: handleAddCustomer_settled_def split: sum.splits)
  have list: "step ev (sw, st) = ((sw', st'), out) \<and> data sw' \<noteq> data sw \<longrightarrow>
      (\<exists>got b. ev = GetSettled got \<and> fetcher got = Inr b \<and> data sw' = Some b)"
    by (cases ev) (auto simp: swr_settle_def split: if_splits prod.splits sum.splits)
  from settled whole start only list show ?thesis by blast
qed

theorem post_success_revalidates_then_closes_witness:
  "handleAddCustomer (\<lambda>c. Inr created_response) jane
     = (initial_state, [POST (payload jane), Mutate])
   \<and> Mutate \<notin> set (snd (handleAddCustomer_start jane))
   \<and> Mutate \<notin> set (snd (handleAddCustomer_settled (Inr error_response) jane))"
  using post_success_revalidates_then_closes
    [of created_response jane "\<lambda>c. Inr created_response" "Inr error_response"
        CreateClicked swr_initial swr_initial jane "[]"]
  by (simp add: created_response_def error_response_def) (simp add: jane_def evaluate)

text \<open>
  C5. \<open>handleClose\<close> always yields the closed, blank state: so do the Cancel button,
  the dialog's \<open>onClose\<close> and a successful submit. Reopening afterwards shows four empty
  fields.
\<close>

theorem closing_resets_form:
  "handleClose st = initial_state
   \<and> (open st \<longrightarrow> step CancelClicked (sw, st) = ((sw, initial_state), [])
                  \<and> step DialogClosed (sw, st) = ((sw, initial_state), []))
   \<and> (ok r \<longrightarrow> fst (handleAddCustomer_settled (Inr r) st) = initial_state)
   \<and> \<not> open initial_state
   \<and> firstName (newCustomer initial_state) = []
   \<and> lastName (newCustomer initial_state) = []
   \<and> businessName (newCustomer initial_state) = Some []
   \<and> email initial_state = []
   \<and> emailError initial_state = []
   \<and> dlg_open (renderDialog (handleClickOpen (handleClose st)))
   \<and> tf_value (dlg_firstName (renderDialog (handleClickOpen (handleClose st)))) = []
   \<and> tf_value (dlg_lastName (renderDialog (handleClickOpen (handleClose st)))) = []
   \<and> tf_value (dlg_businessName (renderDialog (handleClickOpen (handleClose st)))) = []
   \<and> tf_value (dlg_email (renderDialog (handleClickOpen (handleClose st)))) = []"
proof -
  have close: "handleClose st = initial_state"
    by (simp add: handleClose_def initial_state_def)
  have steps: "open st \<longrightarrow> step CancelClicked (sw, st) = ((sw, initial_state), [])
      \<and> step DialogClosed (sw, st) = ((sw, initial_state), [])"
    by (simp add: close)
  have submit: "ok r \<longrightarrow> fst (handleAddCustomer_settled (Inr r) st) = initial_state"
    by (simp add: handleAddCustomer_settled_def close)
  have blank: "\<not> open initial_state" "firstName (newCustomer initial_state) = []"
    "lastName (newCustomer initial_state) = []"
    "businessName (newCustomer initial_state) = Some []"
    "email initial_state = []" "emailError initial_state = []"
    by (simp_all add: initial_state_def)
  have reopen: "dlg_open (renderDialog (handleClickOpen (handleClose st)))"
    "tf_value (dlg_firstName (renderDialog (handleClickOpen (handleClose st)))) = []"
    "tf_value (dlg_lastName (renderDialog (handleClickOpen (handleClose st)))) = []"
    "tf_value (dlg_businessName (renderDialog (handleClickOpen (handleClose st)))) = []"
    "tf_value (dlg_email (renderDialog (handleClickOpen (handleClose st)))) = []"
    by (simp_all add: close initial_state_def handleClickOpen_def renderDialog_def)
  from close steps submit blank reopen show ?thesis by blast
qed

theorem closing_resets_form_witness:
  "handleClose jane = initial_state
   \<and> step CancelClicked (swr_initial, jane) = ((swr_initial, initial_state), [])
   \<and> step DialogClosed (swr_initial, jane) = ((swr_initial, initial_state), [])
   \<and> fst (handleAddCustomer_settled (Inr created_response) jane) = initial_state"
  using closing_resets_form [of jane swr_initial created_response]
  by (simp add: jane_def created_response_def)

text \<open>
  C6. With no data so far, a GET answered by a non-2xx response of body
  \<open>{code: "500", message: "Server error"}\<close> makes \<open>fetcher\<close> throw that body; the page
  then shows \<open>Error: Server error\<close> and no table. A table is shown exactly when \<open>data\<close> is
  defined.
\<close>

theorem get_error_renders_message:
  assumes "data sw = None"
  shows "fetcher (Inr error_response) = Inl (Body (ApiErrorBody server_error))
    \<and> (\<exists>pg. render (swr_settle (fetcher (Inr error_response)) sw) st = Inr pg
          \<and> pg_error pg = Some (js ''Error: Server error'')
          \<and> pg_table pg = None)
    \<and> (render sw' st = Inr pg' \<longrightarrow> (pg_table pg' \<noteq> None \<longleftrightarrow> data sw' \<noteq> None))"
proof -
  have thrown: "fetcher (Inr error_response) = Inl (Body (ApiErrorBody server_error))"
    by (simp add: fetcher_def error_response_def)
  have "errorText (Body (ApiErrorBody server_error)) = js ''Error: Server error''"
    by (simp add: errorText_def server_error_def js_def)
  with assms have shown: "\<exists>pg. render (swr_settle (fetcher (Inr error_response)) sw) st = Inr pg
      \<and> pg_error pg = Some (js ''Error: Server error'') \<and> pg_table pg = None"
    by (simp add: thrown swr_settle_def render_def)
  have table: "render sw' st = Inr pg' \<longrightarrow> (pg_table pg' \<noteq> None \<longleftrightarrow> data sw' \<noteq> None)"
    by (auto simp: render_def Let_def split: option.splits sum.splits)
  from thrown shown table show ?thesis by blast
qed

theorem get_error_renders_message_witness:
  "data swr_initial = None
   \<and> map_sum id pg_error (render (swr_settle (fetcher (Inr error_response)) swr_initial) initial_state)
       = Inr (Some (js ''Error: Server error''))
   \<and> map_sum id pg_table (render (swr_settle (fetcher (Inr error_response)) swr_initial) initial_state)
       = Inr None"
proof -
  have h: "data swr_initial = None" by (simp add: swr_initial_def)
  from get_error_renders_message [OF h, of initial_state]
  obtain pg where "render (swr_settle (fetcher (Inr error_response)) swr_initial) initial_state = Inr pg"
    and "pg_error pg = Some (js ''Error: Server error'')" and "pg_table pg = None"
    by blast
  with h show ?thesis by simp
qed

text \<open>
  C7 as worded: the cell shows the \<open>businessName\<close> when one is present. A customer whose
  \<open>businessName\<close> is present and empty is shown by first and last name, since \<open>||\<close> tests
  for a truthy value.
\<close>

theorem name_cell_present_counterexample:
  "businessName blank_business = Some []
   \<and> nameCell blank_business = js ''Jane Doe''
   \<and> nameCell blank_business \<noteq> []"
  by (simp add: blank_business_def nameCell_def js_def)

text \<open>
  C7, as amended. The name cell of a customer shows the \<open>businessName\<close> when one is present
  and not the empty string, and \<open>firstName\<close>, one space, \<open>lastName\<close> when none is
  present. Every row of the table shows the name cell of its customer.
\<close>

theorem name_cell_rule:
  "(businessName c = Some b \<and> b \<noteq> [] \<longrightarrow> nameCell c = b)
   \<and> (businessName c = None \<longrightarrow> nameCell c = firstName c @ js '' '' @ lastName c)
   \<and> (\<exists>t. renderTable (CustomersBody cs) = Inr t \<and> map fst (tv_rows t) = map nameCell cs)"
  by (auto simp: nameCell_def renderTable_def comp_def)

theorem name_cell_rule_witness:
  "nameCell acme = js ''Acme''
   \<and> nameCell jane_doe = js ''Jane Doe''
   \<and> map_sum id (map fst \<circ> tv_rows) (renderTable (CustomersBody [acme, jane_doe]))
       = Inr [js ''Acme'', js ''Jane Doe'']"
proof -
  from name_cell_rule [of acme "js ''Acme''" "[acme, jane_doe]"]
  obtain t where t: "renderTable (CustomersBody [acme, jane_doe]) = Inr t"
      "map fst (tv_rows t) = map nameCell [acme, jane_doe]"
    and a: "businessName acme = Some (js ''Acme'') \<and> js ''Acme'' \<noteq> [] \<longrightarrow> nameCell acme = js ''Acme''"
    by blast
  have "businessName acme = Some (js ''Acme'')" "js ''Acme'' \<noteq> []"
    by (simp_all add: acme_def js_def)
  with a have 1: "nameCell acme = js ''Acme''" by simp
  have "businessName jane_doe = None" by (simp add: jane_doe_def)
  with name_cell_rule [of jane_doe "[]" "[]"] have "nameCell jane_doe = firstName jane_doe @ js '' '' @ lastName jane_doe"
    by simp
  then have 2: "nameCell jane_doe = js ''Jane Doe''"
    by (simp add: jane_doe_def js_def)
  from 1 2 t show ?thesis by simp
qed

text \<open>
  C8. The count in the header is the length of the array in decimal, a space, and
  \<open>Customer\<close> for length 1, \<open>Customers\<close> otherwise: \<open>1 Customer\<close>, \<open>3 Customers\<close>.
\<close>

theorem count_label_rule:
  "(length customers = 1 \<longrightarrow> countLabel customers = js ''1 Customer'')
   \<and> (length customers = 3 \<longrightarrow> countLabel customers = js ''3 Customers'')
   \<and> (length customers \<noteq> 1 \<longrightarrow>
        countLabel customers = decimal (length customers) @ js '' Customers'')
   \<and> digits_value (decimal (length customers)) = length customers
   \<and> list_all (\<lambda>d. 48 \<le> unat d \<and> unat d \<le> 57) (decimal (length customers))
   \<and> (\<exists>t. renderTable (CustomersBody customers) = Inr t \<and> tv_count t = countLabel customers)"
proof -
  have one: "length customers = 1 \<longrightarrow> countLabel customers = js ''1 Customer''"
    by (simp add: countLabel_def decimal_1) (simp add: js_def)
  have three: "length customers = 3 \<longrightarrow> countLabel customers = js ''3 Customers''"
    by (simp add: countLabel_def decimal_3) (simp add: js_def)
  have many: "length customers \<noteq> 1 \<longrightarrow>
      countLabel customers = decimal (length customers) @ js '' Customers''"
    by (simp add: countLabel_def) (simp add: js_def)
  have shown: "\<exists>t. renderTable (CustomersBody customers) = Inr t \<and> tv_count t = countLabel customers"
    by (simp add: renderTable_def)
  from one three many shown digits_value_decimal [of "length customers"]
    decimal_digits [of "length customers"]
  show ?thesis by blast
qed

theorem count_label_rule_witness:
  "countLabel [acme] = js ''1 Customer''
   \<and> countLabel [acme, jane_doe, blank_business] = js ''3 Customers''
   \<and> countLabel [] = js ''0 Customers''"
  using count_label_rule [of "[acme]"] count_label_rule [of "[acme, jane_doe, blank_business]"]
    count_label_rule [of "[]"]
  by (simp add: decimal.simps) (simp add: js_def)

text \<open>
  C9. A customer whose \<open>businessName\<close> is the empty string gets the name cell of the same
  customer without \<open>businessName\<close>: \<open>firstName\<close>, one space, \<open>lastName\<close>.
\<close>

theorem empty_business_name_falls_back:
  "businessName c = Some [] \<longrightarrow>
     nameCell c = firstName c @ js '' '' @ lastName c
     \<and> nameCell c = nameCell (c\<lparr>businessName := None\<rparr>)"
  by (simp add: nameCell_def)

theorem empty_business_name_falls_back_witness:
  "businessName blank_business = Some []
   \<and> blank_business\<lparr>businessName := None\<rparr> = jane_doe
   \<and> nameCell blank_business = nameCell jane_doe"
proof -
  have absent: "businessName blank_business = Some []"
    by (simp add: blank_business_def)
  have same: "blank_business\<lparr>businessName := None\<rparr> = jane_doe"
    by (simp add: blank_business_def jane_doe_def)
  from empty_business_name_falls_back [of blank_business] absent
  have "nameCell blank_business = nameCell (blank_business\<lparr>businessName := None\<rparr>)"
    by blast
  with absent same show ?thesis by simp
qed

text \<open>
  C10. \<open>fetcher\<close> parses the body before it reads \<open>ok\<close>. For a non-2xx response whose
  body parses, the value thrown is the parsed body itself. A response whose body does
  not parse surfaces the rejection of \<open>response.json()\<close>, whatever its status, and never
  an \<open>ApiError\<close> body.
\<close>

theorem fetcher_parses_before_checking_ok:
  "(\<not> ok r \<and> json r = Inr b \<longrightarrow> fetcher (Inr r) = Inl (Body b))
   \<and> (json r = Inl reason \<longrightarrow>
        fetcher (Inr r) = Inl (Failure reason)
        \<and> (\<forall>e. fetcher (Inr r) \<noteq> Inl (Body (ApiErrorBody e))))
   \<and> (ok r \<and> json r = Inr b \<longrightarrow> fetcher (Inr r) = Inr b)"
  by (simp add: fetcher_def)

theorem fetcher_parses_before_checking_ok_witness:
  "fetcher (Inr error_response) = Inl (Body (ApiErrorBody server_error))
   \<and> fetcher (Inr garbled_response) = Inl (Failure (js ''Unexpected token''))
   \<and> fetcher (Inr (garbled_response\<lparr>ok := True\<rparr>)) = Inl (Failure (js ''Unexpected token''))
   \<and> fetcher (Inr created_response) = Inr (CustomersBody [])"
  using fetcher_parses_before_checking_ok [of error_response "ApiErrorBody server_error" "[]"]
    fetcher_parses_before_checking_ok [of garbled_response "CustomersBody []" "js ''Unexpected token''"]
    fetcher_parses_before_checking_ok [of "garbled_response\<lparr>ok := True\<rparr>" "CustomersBody []" "js ''Unexpected token''"]
    fetcher_parses_before_checking_ok [of created_response "CustomersBody []" "[]"]
  by (simp add: error_response_def garbled_response_def created_response_def)

end
